theory Spec2Isabelle
  imports Main "HOL-Library.Sublist"
begin

section \<open>The hotel booking registry of app.py\<close>

text \<open>
  The class \<open>Hotel\<close> of \<open>app.py\<close> keeps its state in five attributes and changes it in
  two methods, \<open>check_in\<close> and \<open>check_out\<close>. The model passes the state explicitly.
  A Python statement that raises leaves every assignment made before it in place (the
  single \<open>hotel\<close> object of the module outlives the request that raised), so each
  method returns the state it leaves behind together with its outcome: \<open>Inl\<close> the
  exception, \<open>Inr\<close> the returned value, where Python's \<open>None\<close> is \<open>None\<close>.
  The clock (\<open>datetime.datetime.now()\<close>, already formatted) is an argument.
\<close>

subsection \<open>Data\<close>

datatype error = KeyError string | ValueError string

text \<open>
  The guest dictionary built by \<open>check_in\<close> has eight keys; \<open>check_out\<close> adds
  \<open>room_number\<close> and \<open>check_out_date\<close>. A key that is not yet set is \<open>None\<close>.
\<close>

record guest_info =
  name :: string
  email :: string
  phone :: string
  room_type :: string
  nights :: int
  total_cost :: int
  check_in_date :: string
  special_requests :: string
  room_number :: "int option"
  check_out_date :: "string option"

record hotel =
  total_rooms :: int
  available_rooms :: int
  guests :: "int \<rightharpoonup> guest_info"
  history :: "guest_info list"
  room_type_count :: "string \<rightharpoonup> int"

text \<open>The module constant \<open>ROOM_TYPES\<close>, a dictionary in its declared order.\<close>

definition ROOM_TYPES :: "(string \<times> int) list" where
  "ROOM_TYPES = [(''Single'', 50), (''Double'', 80), (''Suite'', 120)]"

subsection \<open>Dictionary and list primitives\<close>

text \<open>\<open>d.get(k, default)\<close> on an ordered dictionary.\<close>

definition dict_get :: "('k \<times> 'v) list \<Rightarrow> 'k \<Rightarrow> 'v \<Rightarrow> 'v" where
  "dict_get d k dflt = (case map_of d k of None \<Rightarrow> dflt | Some v \<Rightarrow> v)"

text \<open>\<open>d[k] = v\<close> on an ordered dictionary: an existing key keeps its place.\<close>

fun dict_set :: "('k \<times> 'v) list \<Rightarrow> 'k \<Rightarrow> 'v \<Rightarrow> ('k \<times> 'v) list" where
  "dict_set [] k v = [(k, v)]"
| "dict_set ((k', v') # d) k v = (if k' = k then (k, v) # d else (k', v') # dict_set d k v)"

text \<open>\<open>xs.index(x)\<close>: the first position of \<open>x\<close>, \<open>None\<close> where Python raises ValueError.\<close>

fun list_index :: "'a list \<Rightarrow> 'a \<Rightarrow> nat option" where
  "list_index [] x = None"
| "list_index (y # ys) x = (if y = x then Some 0 else map_option Suc (list_index ys x))"

subsection \<open>The methods of Hotel\<close>

text \<open>\<open>Hotel.__init__\<close>.\<close>

definition Hotel :: "int \<Rightarrow> hotel" where
  "Hotel n_rooms =
     \<lparr>total_rooms = n_rooms, available_rooms = n_rooms, guests = Map.empty, history = [],
      room_type_count = map_of (map (\<lambda>key. (key, 0)) (map fst ROOM_TYPES))\<rparr>"

text \<open>
  \<open>Hotel.check_in\<close>. The guest is stored and \<open>available_rooms\<close> decremented before
  \<open>self.room_type_count[room_type] += 1\<close> reads the counter, which raises KeyError for a
  room type without a counter.
\<close>

definition check_in ::
  "hotel \<Rightarrow> string \<Rightarrow> string \<Rightarrow> string \<Rightarrow> string \<Rightarrow> int \<Rightarrow> string \<Rightarrow> string
     \<Rightarrow> (error + int option) \<times> hotel" where
  "check_in self nm em ph rtype n sreq now =
     (if available_rooms self = 0 then (Inr None, self)
      else
        let rn = total_rooms self - available_rooms self + 1;
            price_per_night = dict_get ROOM_TYPES rtype 50;
            cost = price_per_night * n;
            check_in_dt = now;
            s1 = self\<lparr>guests := (guests self)(rn \<mapsto>
                   \<lparr>name = nm, email = em, phone = ph, room_type = rtype, nights = n,
                    total_cost = cost, check_in_date = check_in_dt, special_requests = sreq,
                    room_number = None, check_out_date = None\<rparr>)\<rparr>;
            s2 = s1\<lparr>available_rooms := available_rooms s1 - 1\<rparr>
        in case room_type_count s2 rtype of
             None \<Rightarrow> (Inl (KeyError rtype), s2)
           | Some c \<Rightarrow>
               (Inr (Some rn), s2\<lparr>room_type_count := (room_type_count s2)(rtype \<mapsto> c + 1)\<rparr>))"

text \<open>
  \<open>Hotel.check_out\<close>. The last statement, \<open>self.room_type_count[guest['room_type']] -= 1\<close>,
  raises KeyError for a room type without a counter, after the guest has been archived.
\<close>

definition check_out :: "hotel \<Rightarrow> int \<Rightarrow> string \<Rightarrow> (error + guest_info option) \<times> hotel" where
  "check_out self rn now =
     (case guests self rn of
        None \<Rightarrow> (Inr None, self)
      | Some g0 \<Rightarrow>
          let s1 = self\<lparr>guests := fun_upd (guests self) rn None\<rparr>;
              guest = g0\<lparr>room_number := Some rn, check_out_date := Some now\<rparr>;
              s2 = s1\<lparr>history := history s1 @ [guest]\<rparr>;
              s3 = s2\<lparr>available_rooms := available_rooms s2 + 1\<rparr>
          in case room_type_count s3 (room_type guest) of
               None \<Rightarrow> (Inl (KeyError (room_type guest)), s3)
             | Some c \<Rightarrow>
                 (Inr (Some guest),
                  s3\<lparr>room_type_count := (room_type_count s3)(room_type guest \<mapsto> c - 1)\<rparr>))"

definition get_guest_list :: "hotel \<Rightarrow> (int \<rightharpoonup> guest_info)" where
  "get_guest_list self = guests self"

definition get_available_rooms :: "hotel \<Rightarrow> int" where
  "get_available_rooms self = available_rooms self"

definition get_history :: "hotel \<Rightarrow> guest_info list" where
  "get_history self = history self"

text \<open>
  \<open>Hotel.get_available_by_type\<close>: the loop over the keys of \<open>ROOM_TYPES\<close>, with the
  result dictionary as accumulator.
\<close>

fun get_available_by_type_loop ::
  "hotel \<Rightarrow> string list \<Rightarrow> (string \<times> int) list \<Rightarrow> error + (string \<times> int) list" where
  "get_available_by_type_loop self [] result = Inr result"
| "get_available_by_type_loop self (rtype # rest) result =
     (case list_index (map fst ROOM_TYPES) rtype of
        None \<Rightarrow> Inl (ValueError rtype)
      | Some i \<Rightarrow>
          let total_i = int i + 1 in
          (case room_type_count self rtype of
             None \<Rightarrow> Inl (KeyError rtype)
           | Some c \<Rightarrow> get_available_by_type_loop self rest (dict_set result rtype (total_i - c))))"

definition get_available_by_type :: "hotel \<Rightarrow> error + (string \<times> int) list" where
  "get_available_by_type self = get_available_by_type_loop self (map fst ROOM_TYPES) []"

subsection \<open>Sequences of calls\<close>

text \<open>
  A call of one of the two mutating methods, with its arguments and the clock reading it
  sees. \<open>step\<close> is the state the call leaves, whether it returns or raises.
\<close>

datatype call =
  CheckIn string string string string int string string
| CheckOut int string

fun step :: "hotel \<Rightarrow> call \<Rightarrow> hotel" where
  "step self (CheckIn nm em ph rtype n sreq now) = snd (check_in self nm em ph rtype n sreq now)"
| "step self (CheckOut rn now) = snd (check_out self rn now)"

definition run :: "hotel \<Rightarrow> call list \<Rightarrow> hotel" where
  "run self cs = foldl step self cs"

section \<open>Properties\<close>

subsection \<open>Auxiliary facts\<close>

lemmas hotel_eval = run_def Hotel_def check_in_def check_out_def ROOM_TYPES_def dict_get_def Let_def

lemma history_check_in:
  "history (snd (check_in self nm em ph rtype n sreq now)) = history self"
  by (simp add: check_in_def Let_def split: option.split)

lemma history_check_out:
  "history (snd (check_out self rn now)) =
     history self @
       (case guests self rn of
          None \<Rightarrow> []
        | Some g \<Rightarrow> [g\<lparr>room_number := Some rn, check_out_date := Some now\<rparr>])"
  by (simp add: check_out_def Let_def split: option.split)

lemma history_step: "prefix (history self) (history (step self c))"
  by (cases c) (simp_all add: history_check_in history_check_out)

lemma history_run: "prefix (history self) (history (run self cs))"
proof (induction cs arbitrary: self)
  case Nil
  show ?case by (simp add: run_def)
next
  case (Cons c cs)
  have "prefix (history self) (history (step self c))"
    by (rule history_step)
  also have "prefix (history (step self c)) (history (run (step self c) cs))"
    by (rule Cons.IH)
  finally show ?case by (simp add: run_def)
qed

text \<open>
  No method adds or removes a key of \<open>room_type_count\<close>: in every state reached from
  \<open>Hotel k\<close> the counters are those of the three catalog keys.
\<close>

lemma counters_check_in:
  "dom (room_type_count (snd (check_in self nm em ph rtype n sreq now))) =
     dom (room_type_count self)"
  by (auto simp add: check_in_def Let_def split: option.split)

lemma counters_check_out:
  "dom (room_type_count (snd (check_out self rn now))) = dom (room_type_count self)"
  by (auto simp add: check_out_def Let_def split: option.split)

lemma counters_step: "dom (room_type_count (step self c)) = dom (room_type_count self)"
  by (cases c) (simp_all add: counters_check_in counters_check_out)

lemma counters_run: "dom (room_type_count (run self cs)) = dom (room_type_count self)"
  by (induction cs arbitrary: self) (simp_all add: run_def counters_step)

lemma counters_Hotel: "dom (room_type_count (Hotel k)) = {''Single'', ''Double'', ''Suite''}"
  by (auto simp add: Hotel_def ROOM_TYPES_def split: if_splits)

lemma counters_reachable:
  "dom (room_type_count (run (Hotel k) cs)) = set (map fst ROOM_TYPES)"
  by (simp add: counters_run counters_Hotel ROOM_TYPES_def insert_commute)

text \<open>
  With a room free, \<open>check_in\<close> raises KeyError for every room type that has no counter;
  in a state reached from \<open>Hotel k\<close> that is every room type outside the catalog.
\<close>

lemma check_in_raises:
  "available_rooms self \<noteq> 0 \<Longrightarrow> room_type_count self rtype = None \<Longrightarrow>
   fst (check_in self nm em ph rtype n sreq now) = Inl (KeyError rtype)"
  by (simp add: check_in_def Let_def)

lemma check_in_unknown_reachable:
  assumes "rtype \<notin> set (map fst ROOM_TYPES)"
    and "available_rooms (run (Hotel k) cs) \<noteq> 0"
  shows "fst (check_in (run (Hotel k) cs) nm em ph rtype n sreq now) = Inl (KeyError rtype)"
proof -
  have "rtype \<notin> dom (room_type_count (run (Hotel k) cs))"
    using assms(1) by (simp only: counters_reachable not_False_eq_True)
  then have "room_type_count (run (Hotel k) cs) rtype = None"
    by blast
  with assms(2) show ?thesis
    by (rule check_in_raises)
qed

text \<open>
  \<open>check_out\<close> of an occupied room whose stay has a room type with a counter: the whole
  effect and the returned record.
\<close>

lemma check_out_active:
  assumes "guests self rn = Some g"
    and "room_type_count self (room_type g) = Some c"
  shows "check_out self rn now =
     (Inr (Some (g\<lparr>room_number := Some rn, check_out_date := Some now\<rparr>)),
      self\<lparr>guests := fun_upd (guests self) rn None,
           history := history self @ [g\<lparr>room_number := Some rn, check_out_date := Some now\<rparr>],
           available_rooms := available_rooms self + 1,
           room_type_count := (room_type_count self)(room_type g \<mapsto> c - 1)\<rparr>)"
  using assms by (simp add: check_out_def Let_def)

subsection \<open>Occupancy accounting\<close>

text \<open>
  C1. The claim: in every state reached from the initial one by calls of \<open>check_in\<close> and
  \<open>check_out\<close>, \<open>available_rooms\<close> plus the number of active guests is \<open>total_rooms\<close>.
  The code breaks it: after two check-ins, the check-out of room 1 and a third check-in,
  the third guest is stored under room number 2, which the second guest still occupies.
  One active guest remains, \<open>available_rooms\<close> is 3, and the sum is 4 of 5 rooms.
\<close>

theorem occupancy_sum_lost_on_room_reuse:
  "available_rooms (run (Hotel 5)
       [CheckIn ''Alice'' ''alice@x.org'' ''101'' ''Single'' 2 [] ''2024-01-01 10:00:00'',
        CheckIn ''Bob'' ''bob@x.org'' ''102'' ''Suite'' 1 [] ''2024-01-01 11:00:00'',
        CheckOut 1 ''2024-01-02 09:00:00'',
        CheckIn ''Carol'' ''carol@x.org'' ''103'' ''Double'' 3 [] ''2024-01-02 12:00:00'']) = 3
   \<and> card (dom (guests (run (Hotel 5)
       [CheckIn ''Alice'' ''alice@x.org'' ''101'' ''Single'' 2 [] ''2024-01-01 10:00:00'',
        CheckIn ''Bob'' ''bob@x.org'' ''102'' ''Suite'' 1 [] ''2024-01-01 11:00:00'',
        CheckOut 1 ''2024-01-02 09:00:00'',
        CheckIn ''Carol'' ''carol@x.org'' ''103'' ''Double'' 3 [] ''2024-01-02 12:00:00'']))) = 1
   \<and> total_rooms (run (Hotel 5)
       [CheckIn ''Alice'' ''alice@x.org'' ''101'' ''Single'' 2 [] ''2024-01-01 10:00:00'',
        CheckIn ''Bob'' ''bob@x.org'' ''102'' ''Suite'' 1 [] ''2024-01-01 11:00:00'',
        CheckOut 1 ''2024-01-02 09:00:00'',
        CheckIn ''Carol'' ''carol@x.org'' ''103'' ''Double'' 3 [] ''2024-01-02 12:00:00'']) = 5
   \<and> available_rooms (run (Hotel 5)
       [CheckIn ''Alice'' ''alice@x.org'' ''101'' ''Single'' 2 [] ''2024-01-01 10:00:00'',
        CheckIn ''Bob'' ''bob@x.org'' ''102'' ''Suite'' 1 [] ''2024-01-01 11:00:00'',
        CheckOut 1 ''2024-01-02 09:00:00'',
        CheckIn ''Carol'' ''carol@x.org'' ''103'' ''Double'' 3 [] ''2024-01-02 12:00:00''])
     + int (card (dom (guests (run (Hotel 5)
       [CheckIn ''Alice'' ''alice@x.org'' ''101'' ''Single'' 2 [] ''2024-01-01 10:00:00'',
        CheckIn ''Bob'' ''bob@x.org'' ''102'' ''Suite'' 1 [] ''2024-01-01 11:00:00'',
        CheckOut 1 ''2024-01-02 09:00:00'',
        CheckIn ''Carol'' ''carol@x.org'' ''103'' ''Double'' 3 [] ''2024-01-02 12:00:00'']))))
     \<noteq> total_rooms (run (Hotel 5)
       [CheckIn ''Alice'' ''alice@x.org'' ''101'' ''Single'' 2 [] ''2024-01-01 10:00:00'',
        CheckIn ''Bob'' ''bob@x.org'' ''102'' ''Suite'' 1 [] ''2024-01-01 11:00:00'',
        CheckOut 1 ''2024-01-02 09:00:00'',
        CheckIn ''Carol'' ''carol@x.org'' ''103'' ''Double'' 3 [] ''2024-01-02 12:00:00''])"
  by (simp add: hotel_eval)

subsection \<open>Check-in\<close>

text \<open>
  C2. The claim: with a room free, \<open>check_in\<close> with a room type outside the catalog
  completes normally at the default rate of 50 and returns the room number. The code
  computes the price at the default rate and stores the guest, then raises KeyError at the
  increment of the missing counter: in the fresh five-room hotel a check-in for the room
  type Penthouse raises, leaving the guest in room 1 and four rooms available.
\<close>

theorem check_in_unknown_room_type_raises:
  "check_in (Hotel 5) ''Ann'' ''ann@x.org'' ''104'' ''Penthouse'' 2 [] ''2024-01-01 10:00:00'' =
     (Inl (KeyError ''Penthouse''),
      (Hotel 5)\<lparr>guests := [1 \<mapsto> \<lparr>name = ''Ann'', email = ''ann@x.org'', phone = ''104'',
                     room_type = ''Penthouse'', nights = 2, total_cost = 100,
                     check_in_date = ''2024-01-01 10:00:00'', special_requests = [],
                     room_number = None, check_out_date = None\<rparr>],
                 available_rooms := 4\<rparr>)"
  by (simp add: hotel_eval)

text \<open>
  C3. There is a reachable state and a \<open>check_in\<close> call whose computed room number
  already keys an active guest, whom the call replaces and who is afterwards neither
  active nor in the history. The state is the five-room hotel after the check-ins of
  Alice (room 1) and Bob (room 2) and the check-out of room 1; the check-in of Carol
  computes room number 2 again. The history then holds Alice's stay alone.
\<close>

theorem check_in_displaces_active_guest:
  "fst (check_in (run (Hotel 5)
          [CheckIn ''Alice'' ''alice@x.org'' ''101'' ''Single'' 2 [] ''2024-01-01 10:00:00''])
        ''Bob'' ''bob@x.org'' ''102'' ''Suite'' 1 [] ''2024-01-01 11:00:00'') = Inr (Some 2)
   \<and> (let h = run (Hotel 5)
           [CheckIn ''Alice'' ''alice@x.org'' ''101'' ''Single'' 2 [] ''2024-01-01 10:00:00'',
            CheckIn ''Bob'' ''bob@x.org'' ''102'' ''Suite'' 1 [] ''2024-01-01 11:00:00'',
            CheckOut 1 ''2024-01-02 09:00:00''];
          bob = \<lparr>name = ''Bob'', email = ''bob@x.org'', phone = ''102'', room_type = ''Suite'',
                 nights = 1, total_cost = 120, check_in_date = ''2024-01-01 11:00:00'',
                 special_requests = [], room_number = None, check_out_date = None\<rparr>;
          carol = \<lparr>name = ''Carol'', email = ''carol@x.org'', phone = ''103'',
                 room_type = ''Double'', nights = 3, total_cost = 240,
                 check_in_date = ''2024-01-02 12:00:00'', special_requests = [],
                 room_number = None, check_out_date = None\<rparr>;
          r = check_in h ''Carol'' ''carol@x.org'' ''103'' ''Double'' 3 []
                ''2024-01-02 12:00:00''
      in total_rooms h - available_rooms h + 1 = 2
         \<and> guests h 2 = Some bob
         \<and> fst r = Inr (Some 2)
         \<and> guests (snd r) 2 = Some carol
         \<and> dom (guests (snd r)) = {2}
         \<and> bob \<notin> ran (guests (snd r))
         \<and> bob \<notin> set (history (snd r))
         \<and> bob \<notin> set (map (\<lambda>e. e\<lparr>room_number := None, check_out_date := None\<rparr>)
                          (history (snd r)))
         \<and> map name (history (snd r)) = [''Alice''])"
  by (auto simp add: hotel_eval ran_def)

text \<open>
  C4. In every state, a \<open>check_in\<close> that returns a room number returns
  \<open>total_rooms - available_rooms + 1\<close>, computed from the state at the call, and has
  stored the new guest under that number.
\<close>

theorem check_in_room_number:
  assumes "fst (check_in self nm em ph rtype n sreq now) = Inr (Some r)"
  shows "r = total_rooms self - available_rooms self + 1 \<and>
         guests (snd (check_in self nm em ph rtype n sreq now)) r =
           Some \<lparr>name = nm, email = em, phone = ph, room_type = rtype, nights = n,
                 total_cost = dict_get ROOM_TYPES rtype 50 * n, check_in_date = now,
                 special_requests = sreq, room_number = None, check_out_date = None\<rparr>"
  using assms by (auto simp add: check_in_def Let_def split: if_splits option.splits)

theorem check_in_room_number_witness:
  "fst (check_in (Hotel 5) ''Alice'' ''alice@x.org'' ''101'' ''Single'' 2 []
          ''2024-01-01 10:00:00'') = Inr (Some 1)
   \<and> (1::int) = total_rooms (Hotel 5) - available_rooms (Hotel 5) + 1
   \<and> guests (snd (check_in (Hotel 5) ''Alice'' ''alice@x.org'' ''101'' ''Single'' 2 []
          ''2024-01-01 10:00:00'')) 1 =
       Some \<lparr>name = ''Alice'', email = ''alice@x.org'', phone = ''101'', room_type = ''Single'',
             nights = 2, total_cost = 100, check_in_date = ''2024-01-01 10:00:00'',
             special_requests = [], room_number = None, check_out_date = None\<rparr>"
proof -
  have ok: "fst (check_in (Hotel 5) ''Alice'' ''alice@x.org'' ''101'' ''Single'' 2 []
          ''2024-01-01 10:00:00'') = Inr (Some 1)"
    by (simp add: hotel_eval)
  have price: "dict_get ROOM_TYPES ''Single'' 50 * 2 = 100"
    by (simp add: dict_get_def ROOM_TYPES_def)
  show ?thesis
    using ok check_in_room_number [OF ok] by (simp only: price simp_thms)
qed

text \<open>
  C5. In every state with \<open>available_rooms = 0\<close>, and for all arguments, \<open>check_in\<close>
  returns \<open>None\<close> and leaves the whole state as it was.
\<close>

theorem check_in_no_rooms:
  "available_rooms self = 0 \<Longrightarrow> check_in self nm em ph rtype n sreq now = (Inr None, self)"
  by (simp add: check_in_def)

theorem check_in_no_rooms_witness:
  "available_rooms (run (Hotel 1)
       [CheckIn ''Alice'' ''alice@x.org'' ''101'' ''Single'' 2 [] ''2024-01-01 10:00:00'']) = 0
   \<and> check_in (run (Hotel 1)
       [CheckIn ''Alice'' ''alice@x.org'' ''101'' ''Single'' 2 [] ''2024-01-01 10:00:00''])
       ''Bob'' ''bob@x.org'' ''102'' ''Suite'' 1 [] ''2024-01-01 11:00:00'' =
     (Inr None, run (Hotel 1)
       [CheckIn ''Alice'' ''alice@x.org'' ''101'' ''Single'' 2 [] ''2024-01-01 10:00:00''])"
proof -
  have full: "available_rooms (run (Hotel 1)
       [CheckIn ''Alice'' ''alice@x.org'' ''101'' ''Single'' 2 [] ''2024-01-01 10:00:00'']) = 0"
    by (simp add: hotel_eval)
  show ?thesis
    using full check_in_no_rooms [OF full] by (simp only: simp_thms)
qed

text \<open>
  C8. Every guest record that \<open>check_in\<close> creates has \<open>total_cost\<close> equal to the nightly
  price of its room type times the nights: 50 for Single, 80 for Double, 120 for Suite,
  and the default 50 for any other room type.
\<close>

theorem check_in_total_cost:
  assumes "available_rooms self \<noteq> 0"
  shows "\<exists>g. guests (snd (check_in self nm em ph rtype n sreq now))
               (total_rooms self - available_rooms self + 1) = Some g \<and>
             room_type g = rtype \<and> nights g = n \<and>
             total_cost g =
               (if rtype = ''Single'' then 50 else if rtype = ''Double'' then 80
                else if rtype = ''Suite'' then 120 else 50) * n"
  using assms
  by (simp add: check_in_def Let_def dict_get_def ROOM_TYPES_def split: option.split)

theorem check_in_total_cost_witness:
  "available_rooms (Hotel 5) \<noteq> 0
   \<and> (\<exists>g. guests (snd (check_in (Hotel 5) ''Bob'' ''bob@x.org'' ''102'' ''Suite'' 3 []
                 ''2024-01-01 11:00:00'')) 1 = Some g
          \<and> room_type g = ''Suite'' \<and> nights g = 3 \<and> total_cost g = 360)"
proof -
  have free: "available_rooms (Hotel 5) \<noteq> 0"
    by (simp add: Hotel_def)
  have rn: "total_rooms (Hotel 5) - available_rooms (Hotel 5) + 1 = 1"
    by (simp add: Hotel_def)
  show ?thesis
    using free
      check_in_total_cost [OF free, of "''Bob''" "''bob@x.org''" "''102''" "''Suite''" 3 "[]"
        "''2024-01-01 11:00:00''"]
    by (simp add: rn)
qed

subsection \<open>Check-out\<close>

text \<open>
  C6. In every state, \<open>check_out\<close> of a room number that is not a key of the active-guest
  mapping returns \<open>None\<close> and leaves the whole state as it was.
\<close>

theorem check_out_unknown_room:
  "guests self rn = None \<Longrightarrow> check_out self rn now = (Inr None, self)"
  by (simp add: check_out_def)

theorem check_out_unknown_room_witness:
  "guests (Hotel 5) 3 = None
   \<and> check_out (Hotel 5) 3 ''2024-01-02 09:00:00'' = (Inr None, Hotel 5)"
proof -
  have empty: "guests (Hotel 5) 3 = None"
    by (simp add: Hotel_def)
  show ?thesis
    using empty check_out_unknown_room [OF empty] by (simp only: simp_thms)
qed

text \<open>
  C7. The claim: for every room number in the active-guest mapping, \<open>check_out\<close>
  removes the entry, archives it, frees a room, decrements the counter of its room type
  and returns the archived record. The code does not for a stay whose room type has no
  counter, which \<open>check_in\<close> leaves behind when it raises: the check-out of Ann's room 1
  raises KeyError at the decrement and returns no record, after it has archived the stay
  and incremented \<open>available_rooms\<close>. (For a stay whose room type has a counter the
  claim holds, by \<open>check_out_active\<close>.)
\<close>

theorem check_out_unknown_room_type_raises:
  "guests (snd (check_in (Hotel 5) ''Ann'' ''ann@x.org'' ''104'' ''Penthouse'' 2 []
                  ''2024-01-01 10:00:00'')) 1 =
     Some \<lparr>name = ''Ann'', email = ''ann@x.org'', phone = ''104'', room_type = ''Penthouse'',
           nights = 2, total_cost = 100, check_in_date = ''2024-01-01 10:00:00'',
           special_requests = [], room_number = None, check_out_date = None\<rparr>
   \<and> check_out (snd (check_in (Hotel 5) ''Ann'' ''ann@x.org'' ''104'' ''Penthouse'' 2 []
                  ''2024-01-01 10:00:00'')) 1 ''2024-01-03 09:00:00'' =
     (Inl (KeyError ''Penthouse''),
      (Hotel 5)\<lparr>history :=
                  [\<lparr>name = ''Ann'', email = ''ann@x.org'', phone = ''104'',
                    room_type = ''Penthouse'', nights = 2, total_cost = 100,
                    check_in_date = ''2024-01-01 10:00:00'', special_requests = [],
                    room_number = Some 1, check_out_date = Some ''2024-01-03 09:00:00''\<rparr>]\<rparr>)"
  by (simp add: hotel_eval)

subsection \<open>History\<close>

text \<open>
  C9. Over every sequence of calls the history only grows at its end: the history before
  is a prefix of the history after, so no entry is deleted or changed. A \<open>check_in\<close> and a
  \<open>check_out\<close> of an unoccupied room leave it as it is; a \<open>check_out\<close> of an occupied
  room adds that stay, with its room number and check-out time, as the last entry, so
  the entries stand in check-out order.
\<close>

theorem history_append_only:
  "prefix (history self) (history (run self cs))
   \<and> history (step self (CheckIn nm em ph rtype n sreq now)) = history self
   \<and> (guests self rn = None \<longrightarrow> history (step self (CheckOut rn now)) = history self)
   \<and> (guests self rn = Some g \<longrightarrow>
        history (step self (CheckOut rn now)) =
          history self @ [g\<lparr>room_number := Some rn, check_out_date := Some now\<rparr>])"
  by (simp add: history_run history_check_in history_check_out)

theorem history_append_only_witness:
  "history (run (Hotel 5)
     [CheckIn ''Alice'' ''alice@x.org'' ''101'' ''Single'' 2 [] ''2024-01-01 10:00:00'',
      CheckIn ''Bob'' ''bob@x.org'' ''102'' ''Suite'' 1 [] ''2024-01-01 11:00:00'',
      CheckIn ''Carol'' ''carol@x.org'' ''103'' ''Double'' 3 [] ''2024-01-01 12:00:00'',
      CheckOut 3 ''2024-01-02 09:00:00'']) =
     [\<lparr>name = ''Carol'', email = ''carol@x.org'', phone = ''103'', room_type = ''Double'',
       nights = 3, total_cost = 240, check_in_date = ''2024-01-01 12:00:00'',
       special_requests = [], room_number = Some 3,
       check_out_date = Some ''2024-01-02 09:00:00''\<rparr>]
   \<and> guests (run (Hotel 5)
     [CheckIn ''Alice'' ''alice@x.org'' ''101'' ''Single'' 2 [] ''2024-01-01 10:00:00'',
      CheckIn ''Bob'' ''bob@x.org'' ''102'' ''Suite'' 1 [] ''2024-01-01 11:00:00'',
      CheckIn ''Carol'' ''carol@x.org'' ''103'' ''Double'' 3 [] ''2024-01-01 12:00:00'',
      CheckOut 3 ''2024-01-02 09:00:00'']) 1 =
     Some \<lparr>name = ''Alice'', email = ''alice@x.org'', phone = ''101'', room_type = ''Single'',
       nights = 2, total_cost = 100, check_in_date = ''2024-01-01 10:00:00'',
       special_requests = [], room_number = None, check_out_date = None\<rparr>
   \<and> history (step (run (Hotel 5)
     [CheckIn ''Alice'' ''alice@x.org'' ''101'' ''Single'' 2 [] ''2024-01-01 10:00:00'',
      CheckIn ''Bob'' ''bob@x.org'' ''102'' ''Suite'' 1 [] ''2024-01-01 11:00:00'',
      CheckIn ''Carol'' ''carol@x.org'' ''103'' ''Double'' 3 [] ''2024-01-01 12:00:00'',
      CheckOut 3 ''2024-01-02 09:00:00'']) (CheckOut 1 ''2024-01-02 10:00:00'')) =
     [\<lparr>name = ''Carol'', email = ''carol@x.org'', phone = ''103'', room_type = ''Double'',
       nights = 3, total_cost = 240, check_in_date = ''2024-01-01 12:00:00'',
       special_requests = [], room_number = Some 3,
       check_out_date = Some ''2024-01-02 09:00:00''\<rparr>,
      \<lparr>name = ''Alice'', email = ''alice@x.org'', phone = ''101'', room_type = ''Single'',
       nights = 2, total_cost = 100, check_in_date = ''2024-01-01 10:00:00'',
       special_requests = [], room_number = Some 1,
       check_out_date = Some ''2024-01-02 10:00:00''\<rparr>]"
proof -
  let ?h = "run (Hotel 5)
     [CheckIn ''Alice'' ''alice@x.org'' ''101'' ''Single'' 2 [] ''2024-01-01 10:00:00'',
      CheckIn ''Bob'' ''bob@x.org'' ''102'' ''Suite'' 1 [] ''2024-01-01 11:00:00'',
      CheckIn ''Carol'' ''carol@x.org'' ''103'' ''Double'' 3 [] ''2024-01-01 12:00:00'',
      CheckOut 3 ''2024-01-02 09:00:00'']"
  let ?alice = "\<lparr>name = ''Alice'', email = ''alice@x.org'', phone = ''101'',
       room_type = ''Single'', nights = 2, total_cost = 100,
       check_in_date = ''2024-01-01 10:00:00'', special_requests = [],
       room_number = None, check_out_date = None\<rparr>"
  have hist: "history ?h =
     [\<lparr>name = ''Carol'', email = ''carol@x.org'', phone = ''103'', room_type = ''Double'',
       nights = 3, total_cost = 240, check_in_date = ''2024-01-01 12:00:00'',
       special_requests = [], room_number = Some 3,
       check_out_date = Some ''2024-01-02 09:00:00''\<rparr>]"
    by (simp add: hotel_eval)
  have active: "guests ?h 1 = Some ?alice"
    by (simp add: hotel_eval)
  have "history (step ?h (CheckOut 1 ''2024-01-02 10:00:00'')) =
          history ?h @ [?alice\<lparr>room_number := Some 1,
                                check_out_date := Some ''2024-01-02 10:00:00''\<rparr>]"
    using active
      history_append_only [of "?h" "[]" "[]" "[]" "[]" "[]" 0 "[]" "''2024-01-02 10:00:00''" 1
        "?alice"]
    by blast
  with hist active show ?thesis
    by simp
qed

subsection \<open>Availability by room type\<close>

text \<open>
  C10. In every state that has the counters of the three catalog room types (every state
  reached from \<open>Hotel k\<close> has them, by \<open>counters_reachable\<close>), \<open>get_available_by_type\<close>
  returns, in the catalog's order, for each room type its position in the catalog
  counted from 1, minus its occupancy counter.
\<close>

theorem get_available_by_type_positions:
  assumes "room_type_count self ''Single'' = Some a"
    and "room_type_count self ''Double'' = Some b"
    and "room_type_count self ''Suite'' = Some c"
  shows "get_available_by_type self =
           Inr [(''Single'', 1 - a), (''Double'', 2 - b), (''Suite'', 3 - c)]"
  using assms by (simp add: get_available_by_type_def ROOM_TYPES_def)

theorem get_available_by_type_positions_witness:
  "room_type_count (run (Hotel 5)
       [CheckIn ''Alice'' ''alice@x.org'' ''101'' ''Single'' 2 [] ''2024-01-01 10:00:00'',
        CheckIn ''Bob'' ''bob@x.org'' ''102'' ''Suite'' 1 [] ''2024-01-01 11:00:00''])
     ''Single'' = Some 1
   \<and> room_type_count (run (Hotel 5)
       [CheckIn ''Alice'' ''alice@x.org'' ''101'' ''Single'' 2 [] ''2024-01-01 10:00:00'',
        CheckIn ''Bob'' ''bob@x.org'' ''102'' ''Suite'' 1 [] ''2024-01-01 11:00:00''])
     ''Double'' = Some 0
   \<and> room_type_count (run (Hotel 5)
       [CheckIn ''Alice'' ''alice@x.org'' ''101'' ''Single'' 2 [] ''2024-01-01 10:00:00'',
        CheckIn ''Bob'' ''bob@x.org'' ''102'' ''Suite'' 1 [] ''2024-01-01 11:00:00''])
     ''Suite'' = Some 1
   \<and> get_available_by_type (run (Hotel 5)
       [CheckIn ''Alice'' ''alice@x.org'' ''101'' ''Single'' 2 [] ''2024-01-01 10:00:00'',
        CheckIn ''Bob'' ''bob@x.org'' ''102'' ''Suite'' 1 [] ''2024-01-01 11:00:00'']) =
     Inr [(''Single'', 0), (''Double'', 2), (''Suite'', 2)]"
proof -
  let ?h = "run (Hotel 5)
       [CheckIn ''Alice'' ''alice@x.org'' ''101'' ''Single'' 2 [] ''2024-01-01 10:00:00'',
        CheckIn ''Bob'' ''bob@x.org'' ''102'' ''Suite'' 1 [] ''2024-01-01 11:00:00'']"
  have s: "room_type_count ?h ''Single'' = Some 1"
    by (simp add: hotel_eval)
  have d: "room_type_count ?h ''Double'' = Some 0"
    by (simp add: hotel_eval)
  have u: "room_type_count ?h ''Suite'' = Some 1"
    by (simp add: hotel_eval)
  show ?thesis
    using s d u get_available_by_type_positions [OF s d u] by simp
qed

end
